theory Spec2Isabelle
  imports Complex_Main
begin

section \<open>Transcript aggregator\<close>

text \<open>
  The \<^verbatim>\<open>Message\<close> interface of \<^verbatim>\<open>types.ts\<close>: a role, the accumulated text and the
  creation timestamp. \<^verbatim>\<open>Date.now()\<close> returns whole milliseconds, so timestamps are
  integers.
\<close>

datatype speaker = Interviewer | Candidate

record message =
  role :: speaker
  mtext :: string
  timestamp :: int

text \<open>
  JavaScript array access \<^verbatim>\<open>xs[i]\<close> is \<^verbatim>\<open>undefined\<close> out of range, and
  \<^verbatim>\<open>xs.slice(start, end)\<close> counts a negative bound from the end and clamps both
  bounds to the array.
\<close>

definition js_at :: "'a list \<Rightarrow> int \<Rightarrow> 'a option" where
  "js_at xs i = (if 0 \<le> i \<and> i < int (length xs) then Some (xs ! nat i) else None)"

definition js_bound :: "nat \<Rightarrow> int \<Rightarrow> nat" where
  "js_bound len i = (if i < 0 then nat (max (int len + i) 0) else nat (min i (int len)))"

definition js_slice :: "'a list \<Rightarrow> int \<Rightarrow> int \<Rightarrow> 'a list" where
  "js_slice xs start end =
     (let k = js_bound (length xs) start; final = js_bound (length xs) end
      in take (final - k) (drop k xs))"

text \<open>
  \<^verbatim>\<open>updateTranscript\<close> of the first App variant (part_001, lines 229-237); the function
  passed to \<^verbatim>\<open>setTranscript\<close>, applied to the previous sequence. The clock is read
  twice: \<open>now1\<close> is the \<^verbatim>\<open>Date.now()\<close> of the merge test, \<open>now2\<close> the one
  stored in a new segment.
\<close>

definition updateTranscript_001 ::
  "speaker \<Rightarrow> string \<Rightarrow> int \<Rightarrow> int \<Rightarrow> message list \<Rightarrow> message list" where
  "updateTranscript_001 r txt now1 now2 prev =
     (case js_at prev (int (length prev) - 1) of
        Some lst \<Rightarrow>
          if role lst = r \<and> now1 - timestamp lst < 3000
          then js_slice prev 0 (- 1) @ [lst\<lparr>mtext := mtext lst @ '' '' @ txt\<rparr>]
          else prev @ [\<lparr>role = r, mtext = txt, timestamp = now2\<rparr>]
      | None \<Rightarrow> prev @ [\<lparr>role = r, mtext = txt, timestamp = now2\<rparr>])"

text \<open>\<^verbatim>\<open>updateTranscript\<close> of the second App variant (part_002, lines 225-233).\<close>

definition updateTranscript_002 ::
  "speaker \<Rightarrow> string \<Rightarrow> int \<Rightarrow> int \<Rightarrow> message list \<Rightarrow> message list" where
  "updateTranscript_002 r txt now1 now2 prev =
     (case js_at prev (int (length prev) - 1) of
        None \<Rightarrow> prev @ [\<lparr>role = r, mtext = txt, timestamp = now2\<rparr>]
      | Some lst \<Rightarrow>
          if role lst = r \<and> now1 - timestamp lst < 3000
          then js_slice prev 0 (- 1) @ [lst\<lparr>mtext := mtext lst @ '' '' @ txt\<rparr>]
          else prev @ [\<lparr>role = r, mtext = txt, timestamp = now2\<rparr>])"

section \<open>Playback scheduler and message handler\<close>

text \<open>
  The component state that the handlers read and write: the React state
  \<^verbatim>\<open>status\<close>, \<^verbatim>\<open>transcript\<close>, \<^verbatim>\<open>isModelTalking\<close> and the refs
  \<^verbatim>\<open>nextStartTimeRef\<close>, \<^verbatim>\<open>activeSourcesRef\<close>, \<^verbatim>\<open>sessionRef\<close>. State updates
  take effect in the order in which they are issued. Times on the audio clock are
  JavaScript numbers, modelled as reals (rounding is not modelled).

  An \<^verbatim>\<open>AudioBufferSourceNode\<close> is identified by the order of its creation
  (\<open>created\<close> counts the nodes made so far); \<open>startAt\<close> is the argument of its
  \<^verbatim>\<open>start\<close> call and \<open>duration\<close> the duration of its buffer. The set of active
  sources keeps insertion order, as a JavaScript \<^verbatim>\<open>Set\<close> does. \<open>stopped\<close> logs the
  nodes on which \<^verbatim>\<open>stop()\<close> has returned.
\<close>

datatype interview_status = IDLE | CONNECTING | ACTIVE | ENDED

record source_node =
  sid :: nat
  startAt :: real
  duration :: real

record app =
  status :: interview_status
  transcript :: "message list"
  isModelTalking :: bool
  nextStartTime :: real
  activeSources :: "source_node list"
  sessionRef :: bool
  created :: nat
  stopped :: "nat list"

text \<open>The values that \<^verbatim>\<open>useState\<close> and \<^verbatim>\<open>useRef\<close> are given when the component mounts.\<close>

definition initial :: app where
  "initial = \<lparr>status = IDLE, transcript = [], isModelTalking = False, nextStartTime = 0,
     activeSources = [], sessionRef = False, created = 0, stopped = []\<rparr>"

text \<open>
  What a handler can raise: the \<^verbatim>\<open>TypeError\<close> of indexing \<^verbatim>\<open>parts\<close> when it is
  undefined, a failure of \<^verbatim>\<open>decodeAudioData(decode(...))\<close>, and an exception of
  \<^verbatim>\<open>stop()\<close>. A handler returns the state it has reached together with the error
  it raised, if any: the writes made before an exception stay.
\<close>

datatype error = TypeError | DecodeError | StopError

text \<open>
  The parts of a \<^verbatim>\<open>LiveServerMessage\<close> that \<^verbatim>\<open>onmessage\<close> reads. A part is
  represented by its \<^verbatim>\<open>inlineData?.data\<close>; a transcription by its text.
\<close>

datatype content = Content "string option list option"

record server_message =
  modelTurn :: "content option"
  outputTranscription :: "string option"
  inputTranscription :: "string option"
  interrupted :: bool

text \<open>\<^verbatim>\<open>message.serverContent?.modelTurn?.parts[0]?.inlineData?.data\<close>\<close>

definition base64Audio :: "server_message \<Rightarrow> error + string option" where
  "base64Audio m =
     (case modelTurn m of
        None \<Rightarrow> Inr None
      | Some (Content None) \<Rightarrow> Inl TypeError
      | Some (Content (Some ps)) \<Rightarrow> (case js_at ps 0 of None \<Rightarrow> Inr None | Some p \<Rightarrow> Inr p))"

text \<open>
  The body of \<^verbatim>\<open>if (base64Audio) { ... }\<close> (part_001, lines 169-184; part_002, lines
  171-185; the two differ only in how the \<^verbatim>\<open>ended\<close> listener is attached).
  \<^verbatim>\<open>utils/audio\<close> is not among the sources, so the decoder is a parameter:
  \<open>decodeAudioData b\<close> is the duration of the decoded buffer, or \<open>None\<close> when
  decoding raises. \<open>currentTime\<close> is the reading of \<^verbatim>\<open>ctx.currentTime\<close>. A freshly
  created node is not yet a member of the set, so \<^verbatim>\<open>add\<close> appends it.
\<close>

definition scheduleAudio ::
  "(string \<Rightarrow> real option) \<Rightarrow> string \<Rightarrow> real \<Rightarrow> app \<Rightarrow> app \<times> error option" where
  "scheduleAudio decodeAudioData b currentTime s =
     (let s1 = s\<lparr>isModelTalking := True\<rparr>;
          s2 = s1\<lparr>nextStartTime := max (nextStartTime s1) currentTime\<rparr>
      in case decodeAudioData b of
           None \<Rightarrow> (s2, Some DecodeError)
         | Some d \<Rightarrow>
             (let source = \<lparr>sid = created s2, startAt = nextStartTime s2, duration = d\<rparr>;
                  s3 = s2\<lparr>created := Suc (created s2)\<rparr>;
                  s4 = s3\<lparr>nextStartTime := nextStartTime s3 + d\<rparr>
              in (s4\<lparr>activeSources := activeSources s4 @ [source]\<rparr>, None)))"

text \<open>
  The \<^verbatim>\<open>ended\<close> listener of the node \<open>i\<close> (part_001, lines 177-180; part_002,
  lines 179-182): \<^verbatim>\<open>delete\<close>, then the test of \<^verbatim>\<open>size === 0\<close>.
\<close>

definition onended :: "nat \<Rightarrow> app \<Rightarrow> app" where
  "onended i s =
     (let s1 = s\<lparr>activeSources := filter (\<lambda>x. sid x \<noteq> i) (activeSources s)\<rparr>
      in if length (activeSources s1) = 0 then s1\<lparr>isModelTalking := False\<rparr> else s1)"

text \<open>
  The transcription branch (part_001, lines 187-193; part_002, lines 188-192):
  \<^verbatim>\<open>if (outputTranscription) ... else if (inputTranscription) ...\<close>, over the
  variant's \<^verbatim>\<open>updateTranscript\<close>.
\<close>

definition relayTranscription ::
  "(speaker \<Rightarrow> string \<Rightarrow> int \<Rightarrow> int \<Rightarrow> message list \<Rightarrow> message list) \<Rightarrow>
   server_message \<Rightarrow> int \<Rightarrow> int \<Rightarrow> app \<Rightarrow> app" where
  "relayTranscription upd m now1 now2 s =
     (case outputTranscription m of
        Some txt \<Rightarrow> s\<lparr>transcript := upd Interviewer txt now1 now2 (transcript s)\<rparr>
      | None \<Rightarrow>
          (case inputTranscription m of
             Some txt \<Rightarrow> s\<lparr>transcript := upd Candidate txt now1 now2 (transcript s)\<rparr>
           | None \<Rightarrow> s))"

text \<open>
  The interruption branch. Whether \<^verbatim>\<open>stop()\<close> raises on a node is the platform's
  matter and a parameter here. part_001 (lines 195-200) calls
  \<^verbatim>\<open>forEach(s => s.stop())\<close>: the first exception leaves the loop and the handler.
  part_002 (lines 194-199) wraps each call in \<^verbatim>\<open>try { } catch(e) {}\<close>.
\<close>

fun stopEach_001 ::
  "(source_node \<Rightarrow> bool) \<Rightarrow> source_node list \<Rightarrow> nat list \<Rightarrow> nat list \<times> error option" where
  "stopEach_001 stopRaises [] ids = (ids, None)"
| "stopEach_001 stopRaises (x # xs) ids =
     (if stopRaises x then (ids, Some StopError)
      else stopEach_001 stopRaises xs (ids @ [sid x]))"

fun stopEach_002 :: "(source_node \<Rightarrow> bool) \<Rightarrow> source_node list \<Rightarrow> nat list \<Rightarrow> nat list" where
  "stopEach_002 stopRaises [] ids = ids"
| "stopEach_002 stopRaises (x # xs) ids =
     stopEach_002 stopRaises xs (if stopRaises x then ids else ids @ [sid x])"

definition handleInterrupt_001 :: "(source_node \<Rightarrow> bool) \<Rightarrow> app \<Rightarrow> app \<times> error option" where
  "handleInterrupt_001 stopRaises s =
     (case stopEach_001 stopRaises (activeSources s) (stopped s) of
        (ids, Some e) \<Rightarrow> (s\<lparr>stopped := ids\<rparr>, Some e)
      | (ids, None) \<Rightarrow>
          (let s1 = s\<lparr>stopped := ids\<rparr>;
               s2 = s1\<lparr>activeSources := []\<rparr>;
               s3 = s2\<lparr>nextStartTime := 0\<rparr>
           in (s3\<lparr>isModelTalking := False\<rparr>, None)))"

definition handleInterrupt_002 :: "(source_node \<Rightarrow> bool) \<Rightarrow> app \<Rightarrow> app \<times> error option" where
  "handleInterrupt_002 stopRaises s =
     (let s1 = s\<lparr>stopped := stopEach_002 stopRaises (activeSources s) (stopped s)\<rparr>;
          s2 = s1\<lparr>activeSources := []\<rparr>;
          s3 = s2\<lparr>nextStartTime := 0\<rparr>
      in (s3\<lparr>isModelTalking := False\<rparr>, None))"

text \<open>
  The audio branch \<^verbatim>\<open>if (base64Audio) { ... }\<close> on the value \<open>a\<close> of
  \<^verbatim>\<open>base64Audio\<close>: \<^verbatim>\<open>undefined\<close> and the empty string are falsy.
\<close>

definition audioBranch ::
  "(string \<Rightarrow> real option) \<Rightarrow> string option \<Rightarrow> real \<Rightarrow> app \<Rightarrow> app \<times> error option" where
  "audioBranch decodeAudioData a currentTime s =
     (case a of
        None \<Rightarrow> (s, None)
      | Some b \<Rightarrow>
          if b \<noteq> [] then scheduleAudio decodeAudioData b currentTime s else (s, None))"

text \<open>
  \<^verbatim>\<open>onmessage\<close>: the audio branch, then the transcription branch, then the
  interruption branch; an exception ends the handler where it is raised.
\<close>

definition onmessage_with ::
  "(speaker \<Rightarrow> string \<Rightarrow> int \<Rightarrow> int \<Rightarrow> message list \<Rightarrow> message list) \<Rightarrow>
   (app \<Rightarrow> app \<times> error option) \<Rightarrow> (string \<Rightarrow> real option) \<Rightarrow>
   server_message \<Rightarrow> real \<Rightarrow> int \<Rightarrow> int \<Rightarrow> app \<Rightarrow> app \<times> error option" where
  "onmessage_with upd intr decodeAudioData m currentTime now1 now2 s =
     (case base64Audio m of
        Inl e \<Rightarrow> (s, Some e)
      | Inr a \<Rightarrow>
          (case audioBranch decodeAudioData a currentTime s of
             (s1, Some e) \<Rightarrow> (s1, Some e)
           | (s1, None) \<Rightarrow>
               (let s2 = relayTranscription upd m now1 now2 s1
                in if interrupted m then intr s2 else (s2, None))))"

definition onmessage_001 ::
  "(string \<Rightarrow> real option) \<Rightarrow> (source_node \<Rightarrow> bool) \<Rightarrow>
   server_message \<Rightarrow> real \<Rightarrow> int \<Rightarrow> int \<Rightarrow> app \<Rightarrow> app \<times> error option" where
  "onmessage_001 decodeAudioData stopRaises =
     onmessage_with updateTranscript_001 (handleInterrupt_001 stopRaises) decodeAudioData"

definition onmessage_002 ::
  "(string \<Rightarrow> real option) \<Rightarrow> (source_node \<Rightarrow> bool) \<Rightarrow>
   server_message \<Rightarrow> real \<Rightarrow> int \<Rightarrow> int \<Rightarrow> app \<Rightarrow> app \<times> error option" where
  "onmessage_002 decodeAudioData stopRaises =
     onmessage_with updateTranscript_002 (handleInterrupt_002 stopRaises) decodeAudioData"

text \<open>
  \<^verbatim>\<open>endInterview\<close> (part_001, lines 222-227; part_002, lines 218-223). Closing the
  session and stopping the microphone tracks touch nothing of the state modelled here;
  part_002 also clears \<^verbatim>\<open>sessionRef\<close>.
\<close>

definition endInterview_001 :: "app \<Rightarrow> app" where
  "endInterview_001 s = s\<lparr>status := ENDED\<rparr>"

definition endInterview_002 :: "app \<Rightarrow> app" where
  "endInterview_002 s = (let s1 = s\<lparr>sessionRef := False\<rparr> in s1\<lparr>status := ENDED\<rparr>)"

text \<open>
  What follows a session. The button \<^verbatim>\<open>Return to Dashboard\<close> (part_001, lines
  504-509; part_002, line 484) empties the transcript and sets the status to
  \<^verbatim>\<open>IDLE\<close>. \<^verbatim>\<open>startInterview\<close> (part_001, from line 109; part_002, from line 108),
  once past its guards, sets the status to \<^verbatim>\<open>CONNECTING\<close> and builds new
  \<^verbatim>\<open>AudioContext\<close>s, whose \<^verbatim>\<open>currentTime\<close> starts again at 0. Neither writes
  \<^verbatim>\<open>nextStartTimeRef\<close> or \<^verbatim>\<open>activeSourcesRef\<close>.
\<close>

definition returnToDashboard :: "app \<Rightarrow> app" where
  "returnToDashboard s = (let s1 = s\<lparr>transcript := []\<rparr> in s1\<lparr>status := IDLE\<rparr>)"

definition startInterview :: "app \<Rightarrow> app" where
  "startInterview s = s\<lparr>status := CONNECTING\<rparr>"

section \<open>Sessions as event sequences\<close>

text \<open>
  The events of one session, each handled to completion before the next: the channel's
  \<^verbatim>\<open>onopen\<close>, the resolution of the session promise, an inbound message with the
  clock readings taken while it is handled, the \<^verbatim>\<open>ended\<close> event of a node, the
  user's \<^verbatim>\<open>endInterview\<close>, and the channel's \<^verbatim>\<open>onerror\<close> and \<^verbatim>\<open>onclose\<close>.
  A handler invocation is one step: no other event is taken at the \<^verbatim>\<open>await\<close>
  inside \<^verbatim>\<open>onmessage\<close>. \<^verbatim>\<open>onerror\<close> calls \<^verbatim>\<open>endInterview\<close>; the error banner it
  sets is not part of the state modelled here.
\<close>

datatype event =
    Opened
  | Connected
  | Message server_message real int int
  | SourceEnded nat
  | EndInterview
  | ChannelError
  | ChannelClosed

fun step_with ::
  "(server_message \<Rightarrow> real \<Rightarrow> int \<Rightarrow> int \<Rightarrow> app \<Rightarrow> app \<times> error option) \<Rightarrow>
   (app \<Rightarrow> app) \<Rightarrow> app \<Rightarrow> event \<Rightarrow> app" where
  "step_with onmsg endI s Opened = s\<lparr>status := ACTIVE\<rparr>"
| "step_with onmsg endI s Connected = s\<lparr>sessionRef := True\<rparr>"
| "step_with onmsg endI s (Message m currentTime now1 now2) =
     fst (onmsg m currentTime now1 now2 s)"
| "step_with onmsg endI s (SourceEnded i) = onended i s"
| "step_with onmsg endI s EndInterview = endI s"
| "step_with onmsg endI s ChannelError = endI s"
| "step_with onmsg endI s ChannelClosed = s\<lparr>status := ENDED\<rparr>"

definition run_001 ::
  "(string \<Rightarrow> real option) \<Rightarrow> (source_node \<Rightarrow> bool) \<Rightarrow> event list \<Rightarrow> app \<Rightarrow> app" where
  "run_001 decodeAudioData stopRaises es s =
     foldl (step_with (onmessage_001 decodeAudioData stopRaises) endInterview_001) s es"

definition run_002 ::
  "(string \<Rightarrow> real option) \<Rightarrow> (source_node \<Rightarrow> bool) \<Rightarrow> event list \<Rightarrow> app \<Rightarrow> app" where
  "run_002 decodeAudioData stopRaises es s =
     foldl (step_with (onmessage_002 decodeAudioData stopRaises) endInterview_002) s es"

text \<open>A run of audio chunks, each with the clock reading at which it is handled.\<close>

fun enqueueAll :: "(string \<Rightarrow> real option) \<Rightarrow> (string \<times> real) list \<Rightarrow> app \<Rightarrow> app" where
  "enqueueAll decodeAudioData [] s = s"
| "enqueueAll decodeAudioData ((b, currentTime) # cs) s =
     enqueueAll decodeAudioData cs (fst (scheduleAudio decodeAudioData b currentTime s))"

section \<open>Predicates and sample inputs\<close>

text \<open>
  A message whose audio chunk fails to decode, and a message on which the audio branch
  returns normally (no \<^verbatim>\<open>TypeError\<close>, no decode failure).
\<close>

definition decodeFails :: "(string \<Rightarrow> real option) \<Rightarrow> server_message \<Rightarrow> bool" where
  "decodeFails decodeAudioData m =
     (case base64Audio m of
        Inl e \<Rightarrow> False
      | Inr None \<Rightarrow> False
      | Inr (Some b) \<Rightarrow> b \<noteq> [] \<and> decodeAudioData b = None)"

definition audioBranchReturns :: "(string \<Rightarrow> real option) \<Rightarrow> server_message \<Rightarrow> bool" where
  "audioBranchReturns decodeAudioData m =
     (case base64Audio m of
        Inl e \<Rightarrow> False
      | Inr None \<Rightarrow> True
      | Inr (Some b) \<Rightarrow> b = [] \<or> decodeAudioData b \<noteq> None)"

fun isInterruption :: "event \<Rightarrow> bool" where
  "isInterruption (Message m currentTime now1 now2) = interrupted m"
| "isInterruption e = False"

fun eventDecodeFails :: "(string \<Rightarrow> real option) \<Rightarrow> event \<Rightarrow> bool" where
  "eventDecodeFails decodeAudioData (Message m currentTime now1 now2) =
     decodeFails decodeAudioData m"
| "eventDecodeFails decodeAudioData e = False"

text \<open>
  Inputs for the examples: a message that carries one audio part and nothing else, a
  decoder that accepts strings of a length divisible by four and gives a quarter of a
  second per character, and a platform on which \<^verbatim>\<open>stop()\<close> never raises,
  a message that only signals an interruption, and a message that carries both
  transcriptions; a platform on which \<^verbatim>\<open>stop()\<close> raises on the second node
  created, three chunks handled at clock reading 1, and a session in which one chunk is
  played to its end before the interview is ended.
\<close>

definition audioMessage :: "string \<Rightarrow> server_message" where
  "audioMessage b =
     \<lparr>modelTurn = Some (Content (Some [Some b])), outputTranscription = None,
      inputTranscription = None, interrupted = False\<rparr>"

definition sampleDecoder :: "string \<Rightarrow> real option" where
  "sampleDecoder b = (if length b mod 4 = 0 then Some (real (length b) / 4) else None)"

definition neverRaises :: "source_node \<Rightarrow> bool" where
  "neverRaises x = False"

definition raisesOnNode1 :: "source_node \<Rightarrow> bool" where
  "raisesOnNode1 x = (sid x = 1)"

definition threeChunks :: "(string \<times> real) list" where
  "threeChunks = [(''AAAA'', 1), (''BBBB'', 1), (''CCCC'', 1)]"

definition finishedSession :: "event list" where
  "finishedSession =
     [Opened, Message (audioMessage ''AAAA'') 95 0 0, SourceEnded 0, EndInterview]"

definition interruptMessage :: server_message where
  "interruptMessage =
     \<lparr>modelTurn = None, outputTranscription = None, inputTranscription = None,
      interrupted = True\<rparr>"

definition bothTranscriptions :: server_message where
  "bothTranscriptions =
     \<lparr>modelTurn = None, outputTranscription = Some ''Tell me about B-Trees.'',
      inputTranscription = Some ''Sure.'', interrupted = False\<rparr>"

text \<open>
  What the interruption branches of the two variants have in common: the branch leaves
  the transcript alone, and either resets the scheduler or (part_001, when
  \<^verbatim>\<open>stop()\<close> raises) leaves it as it was.
\<close>

definition resetsOrKeeps :: "(app \<Rightarrow> app \<times> error option) \<Rightarrow> bool" where
  "resetsOrKeeps intr =
     (\<forall>s. transcript (fst (intr s)) = transcript s \<and>
       (activeSources (fst (intr s)) = [] \<and> nextStartTime (fst (intr s)) = 0 \<and>
          \<not> isModelTalking (fst (intr s))
        \<or> activeSources (fst (intr s)) = activeSources s \<and>
          nextStartTime (fst (intr s)) = nextStartTime s \<and>
          isModelTalking (fst (intr s)) = isModelTalking s))"

section \<open>Array helpers\<close>

lemma js_at_last:
  "js_at xs (int (length xs) - 1) = (if xs = [] then None else Some (last xs))"
  by (cases xs rule: rev_cases) (simp_all add: js_at_def nth_append)

lemma js_slice_butlast: "js_slice xs 0 (- 1) = butlast xs"
  by (cases xs rule: rev_cases) (simp_all add: js_slice_def js_bound_def)

lemma updateTranscript_002_unfold:
  "updateTranscript_002 r txt now1 now2 prev =
     (if prev \<noteq> [] \<and> role (last prev) = r \<and> now1 - timestamp (last prev) < 3000
      then butlast prev @ [(last prev)\<lparr>mtext := mtext (last prev) @ '' '' @ txt\<rparr>]
      else prev @ [\<lparr>role = r, mtext = txt, timestamp = now2\<rparr>])"
  by (simp add: updateTranscript_002_def js_at_last js_slice_butlast)

lemma updateTranscript_001_unfold:
  "updateTranscript_001 r txt now1 now2 prev =
     (if prev \<noteq> [] \<and> role (last prev) = r \<and> now1 - timestamp (last prev) < 3000
      then butlast prev @ [(last prev)\<lparr>mtext := mtext (last prev) @ '' '' @ txt\<rparr>]
      else prev @ [\<lparr>role = r, mtext = txt, timestamp = now2\<rparr>])"
  by (simp add: updateTranscript_001_def js_at_last js_slice_butlast)

section \<open>The audio branch\<close>

lemma scheduleAudio_decoded:
  "dec b = Some d \<Longrightarrow>
   scheduleAudio dec b ct s =
     (s\<lparr>isModelTalking := True, nextStartTime := max (nextStartTime s) ct + d,
        created := Suc (created s),
        activeSources := activeSources s @
          [\<lparr>sid = created s, startAt = max (nextStartTime s) ct, duration = d\<rparr>]\<rparr>, None)"
  by (simp add: scheduleAudio_def Let_def)

lemma scheduleAudio_failed:
  "dec b = None \<Longrightarrow>
   scheduleAudio dec b ct s =
     (s\<lparr>isModelTalking := True, nextStartTime := max (nextStartTime s) ct\<rparr>, Some DecodeError)"
  by (simp add: scheduleAudio_def Let_def)

lemma audioBranch_cases:
  obtains (skip) "a = None \<or> a = Some []" "audioBranch dec a ct s = (s, None)"
  | (failed) b where "a = Some b" "b \<noteq> []" "dec b = None"
      "audioBranch dec a ct s =
         (s\<lparr>isModelTalking := True, nextStartTime := max (nextStartTime s) ct\<rparr>,
          Some DecodeError)"
  | (decoded) b d where "a = Some b" "b \<noteq> []" "dec b = Some d"
      "audioBranch dec a ct s =
         (s\<lparr>isModelTalking := True, nextStartTime := max (nextStartTime s) ct + d,
            created := Suc (created s),
            activeSources := activeSources s @
              [\<lparr>sid = created s, startAt = max (nextStartTime s) ct, duration = d\<rparr>]\<rparr>, None)"
proof (cases a)
  case None
  then show ?thesis using skip by (simp add: audioBranch_def)
next
  case (Some b)
  show ?thesis
  proof (cases "b = []")
    case True
    with Some show ?thesis using skip by (simp add: audioBranch_def)
  next
    case False
    show ?thesis
    proof (cases "dec b")
      case None
      with Some False show ?thesis
        using failed[of b] by (simp add: audioBranch_def scheduleAudio_failed)
    next
      case (Some d)
      with \<open>a = Some b\<close> False show ?thesis
        using decoded[of b d] by (simp add: audioBranch_def scheduleAudio_decoded)
    qed
  qed
qed

lemma onmessage_with_TypeError:
  "base64Audio m = Inl e \<Longrightarrow> onmessage_with upd intr dec m ct n1 n2 s = (s, Some e)"
  by (simp add: onmessage_with_def)

lemma onmessage_with_decodeFails:
  assumes "decodeFails dec m"
  shows "onmessage_with upd intr dec m ct n1 n2 s =
     (s\<lparr>isModelTalking := True, nextStartTime := max (nextStartTime s) ct\<rparr>, Some DecodeError)"
proof -
  from assms obtain b where b: "base64Audio m = Inr (Some b)" "b \<noteq> []" "dec b = None"
    by (auto simp: decodeFails_def split: sum.splits option.splits)
  then show ?thesis
    by (simp add: onmessage_with_def audioBranch_def scheduleAudio_failed)
qed

lemma onmessage_with_returns:
  assumes "audioBranchReturns dec m"
  obtains a s1 where "base64Audio m = Inr a" "audioBranch dec a ct s = (s1, None)"
    "onmessage_with upd intr dec m ct n1 n2 s =
       (if interrupted m then intr (relayTranscription upd m n1 n2 s1)
        else (relayTranscription upd m n1 n2 s1, None))"
proof -
  from assms obtain a where a: "base64Audio m = Inr a"
    and ok: "a = None \<or> a = Some [] \<or> (\<exists>b. a = Some b \<and> dec b \<noteq> None)"
    by (auto simp: audioBranchReturns_def split: sum.splits option.splits)
  show ?thesis
  proof (cases rule: audioBranch_cases[of a dec ct s])
    case skip
    with a that[of a s] show ?thesis by (simp add: onmessage_with_def Let_def)
  next
    case (failed b)
    with ok show ?thesis by auto
  next
    case (decoded b d)
    with a that[of a] show ?thesis by (simp add: onmessage_with_def Let_def)
  qed
qed

lemma audio_trichotomy:
  "(\<exists>e. base64Audio m = Inl e) \<or> decodeFails dec m \<or> audioBranchReturns dec m"
proof (cases "base64Audio m")
  case (Inl e)
  then show ?thesis by simp
next
  case (Inr a)
  then show ?thesis
    by (cases a) (auto simp: decodeFails_def audioBranchReturns_def)
qed

section \<open>Fields that a branch leaves alone\<close>

lemma relayTranscription_fields [simp]:
  "isModelTalking (relayTranscription upd m n1 n2 s) = isModelTalking s"
  "nextStartTime (relayTranscription upd m n1 n2 s) = nextStartTime s"
  "activeSources (relayTranscription upd m n1 n2 s) = activeSources s"
  by (simp_all add: relayTranscription_def split: option.split)

lemma transcript_relayTranscription:
  "transcript (relayTranscription upd m n1 n2 s) =
     (case outputTranscription m of
        Some txt \<Rightarrow> upd Interviewer txt n1 n2 (transcript s)
      | None \<Rightarrow>
          (case inputTranscription m of
             Some txt \<Rightarrow> upd Candidate txt n1 n2 (transcript s)
           | None \<Rightarrow> transcript s))"
  by (simp add: relayTranscription_def split: option.split)

lemma transcript_audioBranch:
  "transcript (fst (audioBranch dec a ct s)) = transcript s"
  by (cases rule: audioBranch_cases[of a dec ct s]) simp_all

lemma stopEach_002_append:
  "stopEach_002 sr xs ids = ids @ map sid (filter (\<lambda>x. \<not> sr x) xs)"
  by (induction xs arbitrary: ids) simp_all

lemma stopEach_001_eq_002:
  "\<forall>x\<in>set xs. \<not> sr x \<Longrightarrow> stopEach_001 sr xs ids = (stopEach_002 sr xs ids, None)"
  by (induction xs arbitrary: ids) simp_all

lemma stopEach_001_takeWhile:
  "stopEach_001 sr xs ids =
     (ids @ map sid (takeWhile (\<lambda>x. \<not> sr x) xs),
      if \<exists>x\<in>set xs. sr x then Some StopError else None)"
  by (induction xs arbitrary: ids) simp_all

lemma handleInterrupt_002_fst:
  "fst (handleInterrupt_002 sr s) =
     s\<lparr>stopped := stopEach_002 sr (activeSources s) (stopped s), activeSources := [],
       nextStartTime := 0, isModelTalking := False\<rparr>"
  by (simp add: handleInterrupt_002_def)

lemma handleInterrupt_001_fst:
  "fst (handleInterrupt_001 sr s) =
     (case stopEach_001 sr (activeSources s) (stopped s) of
        (ids, Some e) \<Rightarrow> s\<lparr>stopped := ids\<rparr>
      | (ids, None) \<Rightarrow>
          s\<lparr>stopped := ids, activeSources := [], nextStartTime := 0, isModelTalking := False\<rparr>)"
  by (simp add: handleInterrupt_001_def split: prod.split option.split)

lemma resetsOrKeeps_001: "resetsOrKeeps (handleInterrupt_001 sr)"
  by (simp add: resetsOrKeeps_def handleInterrupt_001_fst split: prod.split option.split)

lemma resetsOrKeeps_002: "resetsOrKeeps (handleInterrupt_002 sr)"
  by (simp add: resetsOrKeeps_def handleInterrupt_002_fst)

section \<open>The transcript after a message\<close>

lemma transcript_onmessage_with:
  assumes "resetsOrKeeps intr"
  shows "transcript (fst (onmessage_with upd intr dec m ct n1 n2 s)) =
     (if audioBranchReturns dec m
      then (case outputTranscription m of
              Some txt \<Rightarrow> upd Interviewer txt n1 n2 (transcript s)
            | None \<Rightarrow>
                (case inputTranscription m of
                   Some txt \<Rightarrow> upd Candidate txt n1 n2 (transcript s)
                 | None \<Rightarrow> transcript s))
      else transcript s)"
proof -
  consider (typeError) e where "base64Audio m = Inl e" | (fails) "decodeFails dec m"
    | (returns) "audioBranchReturns dec m"
    using audio_trichotomy[of m dec] by blast
  then show ?thesis
  proof cases
    case typeError
    then show ?thesis by (simp add: onmessage_with_TypeError audioBranchReturns_def)
  next
    case fails
    then have "\<not> audioBranchReturns dec m"
      by (auto simp: decodeFails_def audioBranchReturns_def split: sum.splits option.splits)
    with fails show ?thesis by (simp add: onmessage_with_decodeFails)
  next
    case returns
    then obtain a s1 where a: "audioBranch dec a ct s = (s1, None)"
      and r: "onmessage_with upd intr dec m ct n1 n2 s =
        (if interrupted m then intr (relayTranscription upd m n1 n2 s1)
         else (relayTranscription upd m n1 n2 s1, None))"
      by (rule onmessage_with_returns)
    have "transcript s1 = transcript s"
      using transcript_audioBranch[of dec a ct s] a by simp
    moreover have "transcript (fst (intr t)) = transcript t" for t
      using assms by (simp add: resetsOrKeeps_def)
    ultimately show ?thesis
      using returns r by (simp add: transcript_relayTranscription split: option.split)
  qed
qed

lemma base64Audio_input [simp]:
  "base64Audio (m\<lparr>inputTranscription := x\<rparr>) = base64Audio m"
  by (simp add: base64Audio_def)

lemma relayTranscription_input:
  "outputTranscription m \<noteq> None \<Longrightarrow>
   relayTranscription upd (m\<lparr>inputTranscription := x\<rparr>) n1 n2 s = relayTranscription upd m n1 n2 s"
  by (auto simp: relayTranscription_def)

lemma onmessage_with_input_irrelevant:
  assumes "outputTranscription m \<noteq> None"
  shows "onmessage_with upd intr dec (m\<lparr>inputTranscription := x\<rparr>) ct n1 n2 s =
         onmessage_with upd intr dec m ct n1 n2 s"
  by (simp add: onmessage_with_def relayTranscription_input[OF assms] Let_def
        split: sum.split prod.split option.split)

section \<open>The cursor and the talking flag after a message\<close>

lemma cursor_onmessage_with:
  assumes intr: "resetsOrKeeps intr" and nonneg: "\<And>b d. dec b = Some d \<Longrightarrow> 0 \<le> d"
  shows "nextStartTime s \<le> nextStartTime (fst (onmessage_with upd intr dec m ct n1 n2 s)) \<or>
         interrupted m \<and> nextStartTime (fst (onmessage_with upd intr dec m ct n1 n2 s)) = 0"
proof -
  consider (typeError) e where "base64Audio m = Inl e" | (fails) "decodeFails dec m"
    | (returns) "audioBranchReturns dec m"
    using audio_trichotomy[of m dec] by blast
  then show ?thesis
  proof cases
    case typeError
    then show ?thesis by (simp add: onmessage_with_TypeError)
  next
    case fails
    then show ?thesis by (simp add: onmessage_with_decodeFails)
  next
    case returns
    then obtain a s1 where a: "audioBranch dec a ct s = (s1, None)"
      and r: "onmessage_with upd intr dec m ct n1 n2 s =
        (if interrupted m then intr (relayTranscription upd m n1 n2 s1)
         else (relayTranscription upd m n1 n2 s1, None))"
      by (rule onmessage_with_returns)
    have s1: "nextStartTime s \<le> nextStartTime s1"
    proof (cases rule: audioBranch_cases[of a dec ct s])
      case skip
      with a show ?thesis by simp
    next
      case (failed b)
      with a show ?thesis by simp
    next
      case (decoded b d)
      with a nonneg[of b d] show ?thesis by auto
    qed
    let ?t = "relayTranscription upd m n1 n2 s1"
    have "nextStartTime (fst (intr ?t)) = 0 \<or> nextStartTime (fst (intr ?t)) = nextStartTime s1"
      using intr by (auto simp: resetsOrKeeps_def)
    with s1 r show ?thesis by auto
  qed
qed

lemma talking_onmessage_with:
  assumes intr: "resetsOrKeeps intr"
    and inv: "activeSources s \<noteq> [] \<longrightarrow> isModelTalking s"
  shows "activeSources (fst (onmessage_with upd intr dec m ct n1 n2 s)) \<noteq> [] \<longrightarrow>
         isModelTalking (fst (onmessage_with upd intr dec m ct n1 n2 s))"
proof -
  consider (typeError) e where "base64Audio m = Inl e" | (fails) "decodeFails dec m"
    | (returns) "audioBranchReturns dec m"
    using audio_trichotomy[of m dec] by blast
  then show ?thesis
  proof cases
    case typeError
    with inv show ?thesis by (simp add: onmessage_with_TypeError)
  next
    case fails
    then show ?thesis by (simp add: onmessage_with_decodeFails)
  next
    case returns
    then obtain a s1 where a: "audioBranch dec a ct s = (s1, None)"
      and r: "onmessage_with upd intr dec m ct n1 n2 s =
        (if interrupted m then intr (relayTranscription upd m n1 n2 s1)
         else (relayTranscription upd m n1 n2 s1, None))"
      by (rule onmessage_with_returns)
    have s1: "activeSources s1 \<noteq> [] \<longrightarrow> isModelTalking s1"
      using a inv by (cases rule: audioBranch_cases[of a dec ct s]) auto
    let ?t = "relayTranscription upd m n1 n2 s1"
    have "activeSources (fst (intr ?t)) = [] \<and> \<not> isModelTalking (fst (intr ?t)) \<or>
          activeSources (fst (intr ?t)) = activeSources s1 \<and>
          isModelTalking (fst (intr ?t)) = isModelTalking s1"
      using intr by (auto simp: resetsOrKeeps_def)
    with s1 r show ?thesis by auto
  qed
qed

lemma talking_iff_onmessage_with:
  assumes intr: "resetsOrKeeps intr"
    and inv: "isModelTalking s \<longleftrightarrow> activeSources s \<noteq> []"
    and ok: "\<not> decodeFails dec m"
  shows "isModelTalking (fst (onmessage_with upd intr dec m ct n1 n2 s)) \<longleftrightarrow>
         activeSources (fst (onmessage_with upd intr dec m ct n1 n2 s)) \<noteq> []"
proof -
  consider (typeError) e where "base64Audio m = Inl e" | (returns) "audioBranchReturns dec m"
    using audio_trichotomy[of m dec] ok by blast
  then show ?thesis
  proof cases
    case typeError
    with inv show ?thesis by (simp add: onmessage_with_TypeError)
  next
    case returns
    then obtain a s1 where a: "audioBranch dec a ct s = (s1, None)"
      and r: "onmessage_with upd intr dec m ct n1 n2 s =
        (if interrupted m then intr (relayTranscription upd m n1 n2 s1)
         else (relayTranscription upd m n1 n2 s1, None))"
      by (rule onmessage_with_returns)
    have s1: "isModelTalking s1 \<longleftrightarrow> activeSources s1 \<noteq> []"
      using a inv by (cases rule: audioBranch_cases[of a dec ct s]) auto
    let ?t = "relayTranscription upd m n1 n2 s1"
    have "activeSources (fst (intr ?t)) = [] \<and> \<not> isModelTalking (fst (intr ?t)) \<or>
          activeSources (fst (intr ?t)) = activeSources s1 \<and>
          isModelTalking (fst (intr ?t)) = isModelTalking s1"
      using intr by (auto simp: resetsOrKeeps_def)
    with s1 r show ?thesis by auto
  qed
qed

section \<open>Steps and runs\<close>

lemma onended_fields [simp]:
  "activeSources (onended i s) = filter (\<lambda>x. sid x \<noteq> i) (activeSources s)"
  "nextStartTime (onended i s) = nextStartTime s"
  "isModelTalking (onended i s) =
     (isModelTalking s \<and> filter (\<lambda>x. sid x \<noteq> i) (activeSources s) \<noteq> [])"
  by (simp_all add: onended_def Let_def)

lemma endInterview_fields [simp]:
  "nextStartTime (endInterview_001 s) = nextStartTime s"
  "activeSources (endInterview_001 s) = activeSources s"
  "isModelTalking (endInterview_001 s) = isModelTalking s"
  "nextStartTime (endInterview_002 s) = nextStartTime s"
  "activeSources (endInterview_002 s) = activeSources s"
  "isModelTalking (endInterview_002 s) = isModelTalking s"
  by (simp_all add: endInterview_001_def endInterview_002_def)

lemma filter_nonempty_source: "filter P xs \<noteq> [] \<Longrightarrow> xs \<noteq> []"
  by auto

lemma cursor_step:
  assumes intr: "resetsOrKeeps intr" and nonneg: "\<And>b d. dec b = Some d \<Longrightarrow> 0 \<le> d"
    and endI: "\<And>t. nextStartTime (endI t) = nextStartTime t"
  shows "nextStartTime s \<le> nextStartTime (step_with (onmessage_with upd intr dec) endI s e) \<or>
         isInterruption e \<and> nextStartTime (step_with (onmessage_with upd intr dec) endI s e) = 0"
proof (cases e)
  case (Message m ct n1 n2)
  then show ?thesis
    using cursor_onmessage_with[OF intr nonneg, where s = s and m = m] by simp
qed (simp_all add: endI)

lemma cursor_run:
  assumes intr: "resetsOrKeeps intr" and nonneg: "\<And>b d. dec b = Some d \<Longrightarrow> 0 \<le> d"
    and endI: "\<And>t. nextStartTime (endI t) = nextStartTime t"
    and quiet: "\<forall>e\<in>set es. \<not> isInterruption e"
  shows "nextStartTime s \<le> nextStartTime (foldl (step_with (onmessage_with upd intr dec) endI) s es)"
  using quiet
proof (induction es arbitrary: s)
  case Nil
  show ?case by simp
next
  case (Cons e es)
  let ?s' = "step_with (onmessage_with upd intr dec) endI s e"
  have "nextStartTime s \<le> nextStartTime ?s'"
    using cursor_step[OF intr nonneg endI, where s = s and e = e] Cons.prems by auto
  moreover have "nextStartTime ?s' \<le>
      nextStartTime (foldl (step_with (onmessage_with upd intr dec) endI) ?s' es)"
    using Cons.IH[of ?s'] Cons.prems by simp
  ultimately show ?case by simp
qed

lemma talking_step:
  assumes intr: "resetsOrKeeps intr"
    and endI: "\<And>t. activeSources (endI t) = activeSources t \<and> isModelTalking (endI t) = isModelTalking t"
    and inv: "activeSources s \<noteq> [] \<longrightarrow> isModelTalking s"
  shows "activeSources (step_with (onmessage_with upd intr dec) endI s e) \<noteq> [] \<longrightarrow>
         isModelTalking (step_with (onmessage_with upd intr dec) endI s e)"
proof (cases e)
  case (Message m ct n1 n2)
  then show ?thesis
    using talking_onmessage_with[OF intr inv, where m = m] by simp
next
  case (SourceEnded i)
  then show ?thesis using inv filter_nonempty_source by auto
qed (use inv in \<open>simp_all add: endI\<close>)

lemma talking_iff_step:
  assumes intr: "resetsOrKeeps intr"
    and endI: "\<And>t. activeSources (endI t) = activeSources t \<and> isModelTalking (endI t) = isModelTalking t"
    and inv: "isModelTalking s \<longleftrightarrow> activeSources s \<noteq> []"
    and ok: "\<not> eventDecodeFails dec e"
  shows "isModelTalking (step_with (onmessage_with upd intr dec) endI s e) \<longleftrightarrow>
         activeSources (step_with (onmessage_with upd intr dec) endI s e) \<noteq> []"
proof (cases e)
  case (Message m ct n1 n2)
  with ok have "\<not> decodeFails dec m" by simp
  from talking_iff_onmessage_with[OF intr inv this] Message
  show ?thesis by simp
next
  case (SourceEnded i)
  then show ?thesis using inv filter_nonempty_source by auto
qed (use inv in \<open>simp_all add: endI\<close>)

lemma talking_run:
  assumes intr: "resetsOrKeeps intr"
    and endI: "\<And>t. activeSources (endI t) = activeSources t \<and> isModelTalking (endI t) = isModelTalking t"
    and inv: "activeSources s \<noteq> [] \<longrightarrow> isModelTalking s"
  shows "activeSources (foldl (step_with (onmessage_with upd intr dec) endI) s es) \<noteq> [] \<longrightarrow>
         isModelTalking (foldl (step_with (onmessage_with upd intr dec) endI) s es)"
  using inv
proof (induction es arbitrary: s)
  case Nil
  then show ?case by simp
next
  case (Cons e es)
  show ?case
    using Cons.IH[OF talking_step[OF intr endI Cons.prems, where e = e]] by simp
qed

lemma talking_iff_run:
  assumes intr: "resetsOrKeeps intr"
    and endI: "\<And>t. activeSources (endI t) = activeSources t \<and> isModelTalking (endI t) = isModelTalking t"
    and inv: "isModelTalking s \<longleftrightarrow> activeSources s \<noteq> []"
    and ok: "\<forall>e\<in>set es. \<not> eventDecodeFails dec e"
  shows "isModelTalking (foldl (step_with (onmessage_with upd intr dec) endI) s es) \<longleftrightarrow>
         activeSources (foldl (step_with (onmessage_with upd intr dec) endI) s es) \<noteq> []"
  using inv ok
proof (induction es arbitrary: s)
  case Nil
  then show ?case by simp
next
  case (Cons e es)
  from Cons.prems have e: "\<not> eventDecodeFails dec e" and es: "\<forall>e\<in>set es. \<not> eventDecodeFails dec e"
    by simp_all
  show ?case
    using Cons.IH[OF talking_iff_step[OF intr endI Cons.prems(1) e] es] by simp
qed

section \<open>Runs of audio chunks\<close>

lemma enqueueAll_on_time:
  assumes "map (\<lambda>c. dec (fst c)) cs = map Some ds" "\<forall>d\<in>set ds. 0 \<le> d"
    "\<forall>c\<in>set cs. snd c \<le> nextStartTime s"
  shows "\<exists>new. activeSources (enqueueAll dec cs s) = activeSources s @ new \<and>
           map duration new = ds \<and>
           (\<forall>i<length ds. startAt (new ! i) = nextStartTime s + sum_list (take i ds))"
  using assms
proof (induction cs arbitrary: s ds)
  case Nil
  then show ?case by simp
next
  case (Cons c cs)
  obtain b ct where c: "c = (b, ct)" by (cases c)
  from Cons.prems(1) c obtain d ds' where ds: "ds = d # ds'" and d: "dec b = Some d"
    and rest: "map (\<lambda>c. dec (fst c)) cs = map Some ds'"
    by (cases ds) auto
  from Cons.prems(2) ds have d0: "0 \<le> d" and ds0: "\<forall>d\<in>set ds'. 0 \<le> d" by simp_all
  from Cons.prems(3) c have ct: "ct \<le> nextStartTime s" by simp
  let ?src = "\<lparr>sid = created s, startAt = nextStartTime s, duration = d\<rparr>"
  let ?s' = "fst (scheduleAudio dec b ct s)"
  have s': "nextStartTime ?s' = nextStartTime s + d" "activeSources ?s' = activeSources s @ [?src]"
    using ct by (simp_all add: scheduleAudio_decoded[of dec b d, OF d] max_absorb1)
  have "\<forall>c\<in>set cs. snd c \<le> nextStartTime ?s'"
    using Cons.prems(3) d0 s'(1) by fastforce
  from Cons.IH[OF rest ds0 this] obtain new where
    new: "activeSources (enqueueAll dec cs ?s') = activeSources ?s' @ new"
      "map duration new = ds'"
      "\<forall>i<length ds'. startAt (new ! i) = nextStartTime ?s' + sum_list (take i ds')"
    by blast
  have "activeSources (enqueueAll dec (c # cs) s) = activeSources s @ (?src # new)"
    using new(1) s'(2) c by simp
  moreover have "map duration (?src # new) = ds" using new(2) ds by simp
  moreover have "\<forall>i<length ds. startAt ((?src # new) ! i) = nextStartTime s + sum_list (take i ds)"
  proof (intro allI impI)
    fix i assume "i < length ds"
    then show "startAt ((?src # new) ! i) = nextStartTime s + sum_list (take i ds)"
      using new(3) s'(1) ds by (cases i) simp_all
  qed
  ultimately show ?case by blast
qed

lemma enqueueAll_gapless:
  assumes dec: "map (\<lambda>c. dec (fst c)) cs = map Some ds" and nonneg: "\<forall>d\<in>set ds. 0 \<le> d"
    and clock: "\<forall>c\<in>set cs. snd c = T0" and cursor: "nextStartTime s \<le> T0"
  shows "\<exists>new. activeSources (enqueueAll dec cs s) = activeSources s @ new \<and>
           map duration new = ds \<and>
           (\<forall>i<length ds. startAt (new ! i) = T0 + sum_list (take i ds))"
proof (cases cs)
  case Nil
  with dec show ?thesis by simp
next
  case (Cons c cs')
  obtain b where c: "c = (b, T0)" using clock Cons by (cases c) auto
  let ?s0 = "s\<lparr>nextStartTime := T0\<rparr>"
  have same: "scheduleAudio dec b T0 s = scheduleAudio dec b T0 ?s0" if "dec b = Some d" for d
    using cursor by (simp add: scheduleAudio_decoded[of dec b d, OF that] max_absorb2)
  from dec Cons c obtain d where "dec b = Some d" by (cases ds) auto
  then have "enqueueAll dec cs s = enqueueAll dec cs ?s0"
    using Cons c same by simp
  moreover have "\<forall>c\<in>set cs. snd c \<le> nextStartTime ?s0" using clock by simp
  from enqueueAll_on_time[OF dec nonneg this]
  have "\<exists>new. activeSources (enqueueAll dec cs ?s0) = activeSources s @ new \<and>
           map duration new = ds \<and>
           (\<forall>i<length ds. startAt (new ! i) = T0 + sum_list (take i ds))"
    by simp
  ultimately show ?thesis by simp
qed

lemma enqueueAll_chain:
  assumes "\<forall>c\<in>set cs. \<forall>d. dec (fst c) = Some d \<longrightarrow> 0 \<le> d"
  shows "\<exists>new. activeSources (enqueueAll dec cs s) = activeSources s @ new \<and>
           sorted_wrt (\<lambda>x y. startAt x + duration x \<le> startAt y) new \<and>
           (\<forall>x\<in>set new. nextStartTime s \<le> startAt x)"
  using assms
proof (induction cs arbitrary: s)
  case Nil
  then show ?case by simp
next
  case (Cons c cs)
  obtain b ct where c: "c = (b, ct)" by (cases c)
  let ?s' = "fst (scheduleAudio dec b ct s)"
  from Cons.prems have "\<forall>c\<in>set cs. \<forall>d. dec (fst c) = Some d \<longrightarrow> 0 \<le> d" by simp
  from Cons.IH[OF this] obtain new where
    new: "activeSources (enqueueAll dec cs ?s') = activeSources ?s' @ new"
      "sorted_wrt (\<lambda>x y. startAt x + duration x \<le> startAt y) new"
      "\<forall>x\<in>set new. nextStartTime ?s' \<le> startAt x"
    by blast
  show ?case
  proof (cases "dec b")
    case None
    then have "activeSources ?s' = activeSources s" "nextStartTime s \<le> nextStartTime ?s'"
      by (simp_all add: scheduleAudio_failed)
    with new c show ?thesis by fastforce
  next
    case (Some d)
    with Cons.prems c have d0: "0 \<le> d" by simp
    let ?src = "\<lparr>sid = created s, startAt = max (nextStartTime s) ct, duration = d\<rparr>"
    have s': "activeSources ?s' = activeSources s @ [?src]"
      "nextStartTime ?s' = max (nextStartTime s) ct + d"
      by (simp_all add: scheduleAudio_decoded[of dec b d, OF Some])
    have "activeSources (enqueueAll dec (c # cs) s) = activeSources s @ (?src # new)"
      using new(1) s'(1) c by simp
    moreover have "sorted_wrt (\<lambda>x y. startAt x + duration x \<le> startAt y) (?src # new)"
      using new(2,3) s'(2) by simp
    moreover have "\<forall>x\<in>set (?src # new). nextStartTime s \<le> startAt x"
      using new(3) s'(2) d0 by fastforce
    ultimately show ?thesis by blast
  qed
qed

lemma onmessage_with_audioMessage:
  "b \<noteq> [] \<Longrightarrow>
   onmessage_with upd intr dec (audioMessage b) ct n1 n2 s = scheduleAudio dec b ct s"
  by (cases "scheduleAudio dec b ct s"; cases "snd (scheduleAudio dec b ct s)")
    (simp_all add: onmessage_with_def audioMessage_def base64Audio_def js_at_def audioBranch_def
      relayTranscription_def)

section \<open>Evaluating runs\<close>

lemma run_001_eval:
  "run_001 dec sr [] s = s"
  "run_001 dec sr (e # es) s =
     run_001 dec sr es (step_with (onmessage_001 dec sr) endInterview_001 s e)"
  by (simp_all add: run_001_def)

lemma run_002_eval:
  "run_002 dec sr [] s = s"
  "run_002 dec sr (e # es) s =
     run_002 dec sr es (step_with (onmessage_002 dec sr) endInterview_002 s e)"
  by (simp_all add: run_002_def)

lemmas handler_eval =
  onmessage_001_def onmessage_002_def onmessage_with_def base64Audio_def audioMessage_def
  js_at_def audioBranch_def scheduleAudio_def relayTranscription_def Let_def sampleDecoder_def
  neverRaises_def initial_def onended_def handleInterrupt_001_def handleInterrupt_002_def
  endInterview_001_def endInterview_002_def decodeFails_def

lemma sampleDecoder_nonneg: "\<forall>b d. sampleDecoder b = Some d \<longrightarrow> 0 \<le> d"
  by (auto simp: sampleDecoder_def split: if_splits)

section \<open>Claims\<close>

text \<open>
  C1. An audio chunk that decodes is started at \<open>max nextStartTime currentTime\<close>,
  and the cursor is then that start time plus the duration of its buffer; the node is
  added to the active set. A message that carries only such a chunk does exactly this,
  in both variants. Consequently, when chunks of non-negative durations \<open>ds\<close> are
  handled with the clock standing at \<open>T0\<close> and the cursor not beyond \<open>T0\<close>, the
  \<open>i\<close>-th new node starts at \<open>T0\<close> plus the sum of the first \<open>i\<close> durations; and
  for any clock readings, each node scheduled in a run ends no later than every node
  scheduled after it starts (chunks that fail to decode schedule nothing).
\<close>

theorem enqueue_start_times:
  "(dec b = Some d \<longrightarrow>
      scheduleAudio dec b ct s =
        (s\<lparr>isModelTalking := True, nextStartTime := max (nextStartTime s) ct + d,
           created := Suc (created s),
           activeSources := activeSources s @
             [\<lparr>sid = created s, startAt = max (nextStartTime s) ct, duration = d\<rparr>]\<rparr>, None))
   \<and> (b \<noteq> [] \<longrightarrow>
        onmessage_001 dec sr (audioMessage b) ct n1 n2 s = scheduleAudio dec b ct s \<and>
        onmessage_002 dec sr (audioMessage b) ct n1 n2 s = scheduleAudio dec b ct s)
   \<and> (map (\<lambda>c. dec (fst c)) cs = map Some ds \<and> (\<forall>d\<in>set ds. 0 \<le> d) \<and>
        (\<forall>c\<in>set cs. snd c = T0) \<and> nextStartTime s \<le> T0 \<longrightarrow>
        (\<exists>new. activeSources (enqueueAll dec cs s) = activeSources s @ new \<and>
           map duration new = ds \<and>
           (\<forall>i<length ds. startAt (new ! i) = T0 + sum_list (take i ds))))
   \<and> ((\<forall>c\<in>set cs. \<forall>d. dec (fst c) = Some d \<longrightarrow> 0 \<le> d) \<longrightarrow>
        (\<exists>new. activeSources (enqueueAll dec cs s) = activeSources s @ new \<and>
           sorted_wrt (\<lambda>x y. startAt x + duration x \<le> startAt y) new))"
proof (intro conjI impI)
  assume "dec b = Some d"
  then show "scheduleAudio dec b ct s =
        (s\<lparr>isModelTalking := True, nextStartTime := max (nextStartTime s) ct + d,
           created := Suc (created s),
           activeSources := activeSources s @
             [\<lparr>sid = created s, startAt = max (nextStartTime s) ct, duration = d\<rparr>]\<rparr>, None)"
    by (rule scheduleAudio_decoded)
next
  assume "b \<noteq> []"
  then show "onmessage_001 dec sr (audioMessage b) ct n1 n2 s = scheduleAudio dec b ct s"
    by (simp add: onmessage_001_def onmessage_with_audioMessage)
next
  assume "b \<noteq> []"
  then show "onmessage_002 dec sr (audioMessage b) ct n1 n2 s = scheduleAudio dec b ct s"
    by (simp add: onmessage_002_def onmessage_with_audioMessage)
next
  assume "map (\<lambda>c. dec (fst c)) cs = map Some ds \<and> (\<forall>d\<in>set ds. 0 \<le> d) \<and>
        (\<forall>c\<in>set cs. snd c = T0) \<and> nextStartTime s \<le> T0"
  then show "\<exists>new. activeSources (enqueueAll dec cs s) = activeSources s @ new \<and>
           map duration new = ds \<and>
           (\<forall>i<length ds. startAt (new ! i) = T0 + sum_list (take i ds))"
    using enqueueAll_gapless[of dec cs ds T0 s] by blast
next
  assume "\<forall>c\<in>set cs. \<forall>d. dec (fst c) = Some d \<longrightarrow> 0 \<le> d"
  from enqueueAll_chain[OF this, of s]
  show "\<exists>new. activeSources (enqueueAll dec cs s) = activeSources s @ new \<and>
           sorted_wrt (\<lambda>x y. startAt x + duration x \<le> startAt y) new"
    by blast
qed

theorem enqueue_start_times_witness:
  "sampleDecoder ''AAAA'' = Some 1
   \<and> map (\<lambda>c. sampleDecoder (fst c)) [(''AAAA'', 1), (''BBBBBBBB'', 1)] = map Some [1, 2]
   \<and> nextStartTime initial \<le> 1
   \<and> fst (scheduleAudio sampleDecoder ''AAAA'' 1 initial) =
       initial\<lparr>isModelTalking := True, nextStartTime := 2, created := 1,
         activeSources := [\<lparr>sid = 0, startAt = 1, duration = 1\<rparr>]\<rparr>
   \<and> activeSources (enqueueAll sampleDecoder [(''AAAA'', 1), (''BBBBBBBB'', 1)] initial) =
       [\<lparr>sid = 0, startAt = 1, duration = 1\<rparr>, \<lparr>sid = 1, startAt = 2, duration = 2\<rparr>]"
  using enqueue_start_times[of sampleDecoder "''AAAA''" 1 1 initial neverRaises 0 0
          "[(''AAAA'', 1), (''BBBBBBBB'', 1)]" "[1, 2]" 1]
  by (simp add: sampleDecoder_def initial_def scheduleAudio_def Let_def)

text \<open>
  C2, as the code has it. When the chunk of a message fails to decode, no node is
  scheduled and nothing is added to the active set, but the handler has already set
  \<open>isModelTalking\<close> and raised the cursor to \<open>max nextStartTime currentTime\<close>; the
  exception ends the handler, so the transcription and interruption branches of that
  message do not run. The state is therefore not left unchanged, as the example after
  the theorem shows: from the initial state the cursor moves from 0 to 5 and the flag
  becomes true.
\<close>

theorem decode_failure_effect:
  "decodeFails dec m \<longrightarrow>
     onmessage_001 dec sr m ct n1 n2 s =
       (s\<lparr>isModelTalking := True, nextStartTime := max (nextStartTime s) ct\<rparr>,
        Some DecodeError) \<and>
     onmessage_002 dec sr m ct n1 n2 s =
       (s\<lparr>isModelTalking := True, nextStartTime := max (nextStartTime s) ct\<rparr>,
        Some DecodeError)"
  by (simp add: onmessage_001_def onmessage_002_def onmessage_with_decodeFails)

theorem decode_failure_effect_witness:
  "decodeFails sampleDecoder (audioMessage ''abc'')
   \<and> onmessage_001 sampleDecoder neverRaises (audioMessage ''abc'') 5 0 0 initial =
       (initial\<lparr>isModelTalking := True, nextStartTime := 5\<rparr>, Some DecodeError)
   \<and> activeSources (fst (onmessage_002 sampleDecoder neverRaises (audioMessage ''abc'') 5 0 0
        initial)) = []"
proof -
  have f: "decodeFails sampleDecoder (audioMessage ''abc'')"
    by (simp add: decodeFails_def base64Audio_def audioMessage_def js_at_def sampleDecoder_def)
  from decode_failure_effect[of sampleDecoder "audioMessage ''abc''" neverRaises 5 0 0 initial] f
  show ?thesis by (simp add: initial_def)
qed

theorem decode_failure_mutates_state:
  "snd (onmessage_002 sampleDecoder neverRaises (audioMessage ''abc'') 5 0 0 initial) =
     Some DecodeError
   \<and> nextStartTime initial = 0
   \<and> nextStartTime (fst (onmessage_002 sampleDecoder neverRaises (audioMessage ''abc'') 5 0 0
        initial)) = 5
   \<and> \<not> isModelTalking initial
   \<and> isModelTalking (fst (onmessage_002 sampleDecoder neverRaises (audioMessage ''abc'') 5 0 0
        initial))
   \<and> fst (onmessage_001 sampleDecoder neverRaises (audioMessage ''abc'') 5 0 0 initial) \<noteq> initial"
  by (simp add: onmessage_001_def onmessage_002_def onmessage_with_def base64Audio_def
        audioMessage_def js_at_def audioBranch_def scheduleAudio_def Let_def sampleDecoder_def
        initial_def)

text \<open>
  C3, as the code has it. In every state reached from the initial one, a non-empty
  active set implies \<open>isModelTalking\<close>; the converse holds in every state reached
  through events none of which is a failed decode. The flag is set on every audio
  chunk, before decoding, and an \<^verbatim>\<open>ended\<close> event keeps the flag exactly when the
  active set is still non-empty. After a failed decode the flag is true while the
  active set is empty, as the example after the theorem shows.
\<close>

theorem talking_flag_invariant:
  "(\<forall>run\<in>{run_001 dec sr, run_002 dec sr}.
      (activeSources (run es initial) \<noteq> [] \<longrightarrow> isModelTalking (run es initial)) \<and>
      ((\<forall>e\<in>set es. \<not> eventDecodeFails dec e) \<longrightarrow>
         (isModelTalking (run es initial) \<longleftrightarrow> activeSources (run es initial) \<noteq> [])))
   \<and> isModelTalking (fst (scheduleAudio dec b ct s))
   \<and> (isModelTalking (onended i s) \<longleftrightarrow> isModelTalking s \<and> activeSources (onended i s) \<noteq> [])"
proof -
  have e1: "activeSources (endInterview_001 t) = activeSources t \<and>
            isModelTalking (endInterview_001 t) = isModelTalking t" for t by simp
  have e2: "activeSources (endInterview_002 t) = activeSources t \<and>
            isModelTalking (endInterview_002 t) = isModelTalking t" for t by simp
  have i0: "activeSources initial \<noteq> [] \<longrightarrow> isModelTalking initial"
    and i1: "isModelTalking initial \<longleftrightarrow> activeSources initial \<noteq> []"
    by (simp_all add: initial_def)
  have a1: "activeSources (run_001 dec sr es initial) \<noteq> [] \<longrightarrow>
            isModelTalking (run_001 dec sr es initial)"
    unfolding run_001_def onmessage_001_def
    by (rule talking_run[OF resetsOrKeeps_001 e1 i0])
  have a2: "activeSources (run_002 dec sr es initial) \<noteq> [] \<longrightarrow>
            isModelTalking (run_002 dec sr es initial)"
    unfolding run_002_def onmessage_002_def
    by (rule talking_run[OF resetsOrKeeps_002 e2 i0])
  have b1: "isModelTalking (run_001 dec sr es initial) \<longleftrightarrow>
            activeSources (run_001 dec sr es initial) \<noteq> []"
    if "\<forall>e\<in>set es. \<not> eventDecodeFails dec e"
    unfolding run_001_def onmessage_001_def
    by (rule talking_iff_run[OF resetsOrKeeps_001 e1 i1 that])
  have b2: "isModelTalking (run_002 dec sr es initial) \<longleftrightarrow>
            activeSources (run_002 dec sr es initial) \<noteq> []"
    if "\<forall>e\<in>set es. \<not> eventDecodeFails dec e"
    unfolding run_002_def onmessage_002_def
    by (rule talking_iff_run[OF resetsOrKeeps_002 e2 i1 that])
  have c: "isModelTalking (fst (scheduleAudio dec b ct s))"
    by (simp add: scheduleAudio_def Let_def split: option.split)
  have d: "isModelTalking (onended i s) \<longleftrightarrow> isModelTalking s \<and> activeSources (onended i s) \<noteq> []"
    by simp
  from a1 a2 b1 b2 c d show ?thesis by simp
qed

theorem talking_flag_invariant_witness:
  "\<not> eventDecodeFails sampleDecoder (Message (audioMessage ''AAAA'') 5 0 0)
   \<and> \<not> eventDecodeFails sampleDecoder (SourceEnded 0)
   \<and> isModelTalking (run_002 sampleDecoder neverRaises
        [Message (audioMessage ''AAAA'') 5 0 0] initial)
   \<and> activeSources (run_002 sampleDecoder neverRaises
        [Message (audioMessage ''AAAA'') 5 0 0] initial) \<noteq> []
   \<and> \<not> isModelTalking (run_001 sampleDecoder neverRaises
        [Message (audioMessage ''AAAA'') 5 0 0, SourceEnded 0] initial)
   \<and> activeSources (run_001 sampleDecoder neverRaises
        [Message (audioMessage ''AAAA'') 5 0 0, SourceEnded 0] initial) = []"
  using talking_flag_invariant[of sampleDecoder neverRaises
          "[Message (audioMessage ''AAAA'') 5 0 0]" "''AAAA''" 5 initial 0]
  by (simp add: run_001_eval run_002_eval handler_eval)

theorem talking_with_empty_active_set:
  "isModelTalking (run_002 sampleDecoder neverRaises
      [Message (audioMessage ''abc'') 5 0 0] initial)
   \<and> activeSources (run_002 sampleDecoder neverRaises
      [Message (audioMessage ''abc'') 5 0 0] initial) = []
   \<and> isModelTalking (run_001 sampleDecoder neverRaises
      [Message (audioMessage ''abc'') 5 0 0] initial)
   \<and> activeSources (run_001 sampleDecoder neverRaises
      [Message (audioMessage ''abc'') 5 0 0] initial) = []"
  by (simp add: run_001_eval run_002_eval handler_eval)

text \<open>
  C4. With both clock readings equal to the arrival timestamp \<open>t\<close>: if a last segment
  exists, has the incoming role and was created less than 3000 ms before \<open>t\<close>, it is
  replaced by a segment with the old text, a space and the new text, under the old
  creation timestamp; otherwise a segment \<open>(r, txt, t)\<close> is appended. Fragments of the
  interviewer at 0 and 1000 coalesce into one segment created at 0, a third at 3500
  starts a new segment, and a fragment of a different role always starts a new
  segment.
\<close>

theorem updateTranscript_coalesces: 
  "\<forall>upd\<in>{updateTranscript_001, updateTranscript_002}.
     upd r txt t t prev =
       (if prev \<noteq> [] \<and> role (last prev) = r \<and> t - timestamp (last prev) < 3000
        then butlast prev @
               [\<lparr>role = role (last prev), mtext = mtext (last prev) @ '' '' @ txt,
                 timestamp = timestamp (last prev)\<rparr>]
        else prev @ [\<lparr>role = r, mtext = txt, timestamp = t\<rparr>])
   \<and> upd Interviewer ''six'' 1000 1000 (upd Interviewer ''five'' 0 0 []) =
         [\<lparr>role = Interviewer, mtext = ''five six'', timestamp = 0\<rparr>]
   \<and> upd Interviewer ''seven'' 3500 3500
         (upd Interviewer ''six'' 1000 1000 (upd Interviewer ''five'' 0 0 [])) =
         [\<lparr>role = Interviewer, mtext = ''five six'', timestamp = 0\<rparr>,
          \<lparr>role = Interviewer, mtext = ''seven'', timestamp = 3500\<rparr>]
   \<and> (prev \<noteq> [] \<and> role (last prev) \<noteq> r \<longrightarrow>
        upd r txt now1 now2 prev = prev @ [\<lparr>role = r, mtext = txt, timestamp = now2\<rparr>])"
  by (simp add: updateTranscript_001_unfold updateTranscript_002_unfold)

theorem updateTranscript_coalesces_witness:
  "updateTranscript_001 Candidate ''yes'' 1200 1200
     [\<lparr>role = Interviewer, mtext = ''five six'', timestamp = 0\<rparr>] =
     [\<lparr>role = Interviewer, mtext = ''five six'', timestamp = 0\<rparr>,
      \<lparr>role = Candidate, mtext = ''yes'', timestamp = 1200\<rparr>]
   \<and> updateTranscript_002 Interviewer ''six'' 2999 2999
     [\<lparr>role = Interviewer, mtext = ''five'', timestamp = 0\<rparr>] =
     [\<lparr>role = Interviewer, mtext = ''five six'', timestamp = 0\<rparr>]
   \<and> updateTranscript_002 Interviewer ''six'' 3000 3000
     [\<lparr>role = Interviewer, mtext = ''five'', timestamp = 0\<rparr>] =
     [\<lparr>role = Interviewer, mtext = ''five'', timestamp = 0\<rparr>,
      \<lparr>role = Interviewer, mtext = ''six'', timestamp = 3000\<rparr>]"
  using updateTranscript_coalesces[of Candidate "''yes''" 1200
          "[\<lparr>role = Interviewer, mtext = ''five six'', timestamp = 0\<rparr>]" 1200 1200]
    updateTranscript_coalesces[of Interviewer "''six''" 2999
          "[\<lparr>role = Interviewer, mtext = ''five'', timestamp = 0\<rparr>]" 2999 2999]
    updateTranscript_coalesces[of Interviewer "''six''" 3000
          "[\<lparr>role = Interviewer, mtext = ''five'', timestamp = 0\<rparr>]" 3000 3000]
  by simp

text \<open>
  C5. The claim: in every state the interruption branch stops every active node
  without raising, empties the active set, resets the cursor to 0 and clears
  \<open>isModelTalking\<close>. The branch of part_002 does so: it never raises, touches neither
  the transcript nor the status, and has stopped every active node whose
  \<^verbatim>\<open>stop()\<close> does not raise. The branch of part_001 agrees with it exactly when
  \<^verbatim>\<open>stop()\<close> raises on no active node; otherwise it raises, has stopped only the
  nodes before the first raising one, and leaves the active set, the cursor and the flag
  as they were. With an empty active set both branches only reset the cursor and the
  flag, and change nothing when these are already reset.
\<close>

theorem interrupt_effect:
  "snd (handleInterrupt_002 sr s) = None
   \<and> activeSources (fst (handleInterrupt_002 sr s)) = []
   \<and> nextStartTime (fst (handleInterrupt_002 sr s)) = 0
   \<and> \<not> isModelTalking (fst (handleInterrupt_002 sr s))
   \<and> transcript (fst (handleInterrupt_002 sr s)) = transcript s
   \<and> status (fst (handleInterrupt_002 sr s)) = status s
   \<and> (\<forall>x\<in>set (activeSources s). \<not> sr x \<longrightarrow>
        sid x \<in> set (stopped (fst (handleInterrupt_002 sr s))))
   \<and> handleInterrupt_001 sr s =
       (if \<exists>x\<in>set (activeSources s). sr x
        then (s\<lparr>stopped := stopped s @
                 map sid (takeWhile (\<lambda>x. \<not> sr x) (activeSources s))\<rparr>, Some StopError)
        else handleInterrupt_002 sr s)
   \<and> (activeSources s = [] \<longrightarrow>
        handleInterrupt_001 sr s = (s\<lparr>nextStartTime := 0, isModelTalking := False\<rparr>, None) \<and>
        handleInterrupt_002 sr s = (s\<lparr>nextStartTime := 0, isModelTalking := False\<rparr>, None))
   \<and> (activeSources s = [] \<and> nextStartTime s = 0 \<and> \<not> isModelTalking s \<longrightarrow>
        handleInterrupt_001 sr s = (s, None) \<and> handleInterrupt_002 sr s = (s, None))"
proof -
  have one: "handleInterrupt_001 sr s =
       (if \<exists>x\<in>set (activeSources s). sr x
        then (s\<lparr>stopped := stopped s @
                 map sid (takeWhile (\<lambda>x. \<not> sr x) (activeSources s))\<rparr>, Some StopError)
        else handleInterrupt_002 sr s)"
  proof (cases "\<exists>x\<in>set (activeSources s). sr x")
    case True
    then show ?thesis
      by (simp add: handleInterrupt_001_def stopEach_001_takeWhile)
  next
    case False
    then have "\<forall>x\<in>set (activeSources s). \<not> sr x" by blast
    from stopEach_001_eq_002[OF this] False show ?thesis
      by (simp add: handleInterrupt_001_def handleInterrupt_002_def)
  qed
  have two: "snd (handleInterrupt_002 sr s) = None
   \<and> activeSources (fst (handleInterrupt_002 sr s)) = []
   \<and> nextStartTime (fst (handleInterrupt_002 sr s)) = 0
   \<and> \<not> isModelTalking (fst (handleInterrupt_002 sr s))
   \<and> transcript (fst (handleInterrupt_002 sr s)) = transcript s
   \<and> status (fst (handleInterrupt_002 sr s)) = status s
   \<and> (\<forall>x\<in>set (activeSources s). \<not> sr x \<longrightarrow>
        sid x \<in> set (stopped (fst (handleInterrupt_002 sr s))))"
    by (auto simp: handleInterrupt_002_def stopEach_002_append)
  have empty: "activeSources s = [] \<longrightarrow>
        handleInterrupt_001 sr s = (s\<lparr>nextStartTime := 0, isModelTalking := False\<rparr>, None) \<and>
        handleInterrupt_002 sr s = (s\<lparr>nextStartTime := 0, isModelTalking := False\<rparr>, None)"
    by (simp add: handleInterrupt_001_def handleInterrupt_002_def)
  have idle: "activeSources s = [] \<and> nextStartTime s = 0 \<and> \<not> isModelTalking s \<longrightarrow>
        handleInterrupt_001 sr s = (s, None) \<and> handleInterrupt_002 sr s = (s, None)"
    by (auto simp: handleInterrupt_001_def handleInterrupt_002_def)
  from one two empty idle show ?thesis by blast
qed

theorem interrupt_effect_witness:
  "activeSources (enqueueAll sampleDecoder threeChunks initial) =
     [\<lparr>sid = 0, startAt = 1, duration = 1\<rparr>, \<lparr>sid = 1, startAt = 2, duration = 1\<rparr>,
      \<lparr>sid = 2, startAt = 3, duration = 1\<rparr>]
   \<and> nextStartTime (enqueueAll sampleDecoder threeChunks initial) = 4
   \<and> isModelTalking (enqueueAll sampleDecoder threeChunks initial)
   \<and> handleInterrupt_001 raisesOnNode1 (enqueueAll sampleDecoder threeChunks initial) =
       ((enqueueAll sampleDecoder threeChunks initial)\<lparr>stopped := [0]\<rparr>, Some StopError)
   \<and> onmessage_001 sampleDecoder raisesOnNode1 interruptMessage 2 0 0
       (enqueueAll sampleDecoder threeChunks initial) =
       ((enqueueAll sampleDecoder threeChunks initial)\<lparr>stopped := [0]\<rparr>, Some StopError)
   \<and> handleInterrupt_002 raisesOnNode1 (enqueueAll sampleDecoder threeChunks initial) =
       (initial\<lparr>created := 3, stopped := [0, 2]\<rparr>, None)
   \<and> onmessage_002 sampleDecoder raisesOnNode1 interruptMessage 2 0 0
       (enqueueAll sampleDecoder threeChunks initial) =
       (initial\<lparr>created := 3, stopped := [0, 2]\<rparr>, None)
   \<and> handleInterrupt_001 neverRaises (enqueueAll sampleDecoder threeChunks initial) =
       (initial\<lparr>created := 3, stopped := [0, 1, 2]\<rparr>, None)
   \<and> handleInterrupt_001 raisesOnNode1 initial = (initial, None)"
  using interrupt_effect[of raisesOnNode1 "enqueueAll sampleDecoder threeChunks initial"]
    interrupt_effect[of neverRaises "enqueueAll sampleDecoder threeChunks initial"]
    interrupt_effect[of raisesOnNode1 initial]
  by (simp add: handler_eval threeChunks_def raisesOnNode1_def interruptMessage_def)

text \<open>
  C6. A call of the aggregator either appends one segment at the end or replaces the
  last segment by one of the same role and creation timestamp; every segment before
  the last is kept as it is and the sequence never gets shorter. When the creation
  timestamps were in order and the clock has not gone back behind them, they are still
  in order.
\<close>

theorem transcript_append_only:
  "\<forall>upd\<in>{updateTranscript_001, updateTranscript_002}.
     ((\<exists>seg. upd r txt now1 now2 prev = prev @ [seg]) \<or>
      (prev \<noteq> [] \<and>
       (\<exists>seg. upd r txt now1 now2 prev = butlast prev @ [seg] \<and>
              role seg = role (last prev) \<and> timestamp seg = timestamp (last prev))))
     \<and> (\<forall>i. Suc i < length prev \<longrightarrow> upd r txt now1 now2 prev ! i = prev ! i)
     \<and> length prev \<le> length (upd r txt now1 now2 prev)
     \<and> length (upd r txt now1 now2 prev) \<le> Suc (length prev)
     \<and> (sorted (map timestamp prev) \<and> (\<forall>m\<in>set prev. timestamp m \<le> now2) \<longrightarrow>
          sorted (map timestamp (upd r txt now1 now2 prev)))"
  apply (cases prev rule: rev_cases)
  apply (simp_all add: updateTranscript_001_unfold updateTranscript_002_unfold nth_append sorted_append)
  done

theorem transcript_append_only_witness:
  "sorted (map timestamp [\<lparr>role = Interviewer, mtext = ''five'', timestamp = 0\<rparr>,
      \<lparr>role = Candidate, mtext = ''six'', timestamp = 10\<rparr>])
   \<and> updateTranscript_001 Candidate ''seven'' 20 20
       [\<lparr>role = Interviewer, mtext = ''five'', timestamp = 0\<rparr>,
        \<lparr>role = Candidate, mtext = ''six'', timestamp = 10\<rparr>] ! 0 =
       \<lparr>role = Interviewer, mtext = ''five'', timestamp = 0\<rparr>
   \<and> length (updateTranscript_001 Candidate ''seven'' 20 20
       [\<lparr>role = Interviewer, mtext = ''five'', timestamp = 0\<rparr>,
        \<lparr>role = Candidate, mtext = ''six'', timestamp = 10\<rparr>]) = 2
   \<and> sorted (map timestamp (updateTranscript_002 Candidate ''seven'' 20 20
       [\<lparr>role = Interviewer, mtext = ''five'', timestamp = 0\<rparr>,
        \<lparr>role = Candidate, mtext = ''six'', timestamp = 10\<rparr>]))"
  using transcript_append_only[of Candidate "''seven''" 20 20
          "[\<lparr>role = Interviewer, mtext = ''five'', timestamp = 0\<rparr>,
            \<lparr>role = Candidate, mtext = ''six'', timestamp = 10\<rparr>]"]
  by (simp add: updateTranscript_001_unfold updateTranscript_002_unfold)

text \<open>
  C7. When decoded durations are non-negative, a step of a session either leaves the
  cursor where it was or moves it forward, or it is a message with the interruption
  flag and leaves the cursor at 0; over a run without such a message the cursor never
  decreases.
\<close>

theorem cursor_monotone:
  assumes "\<forall>b d. dec b = Some d \<longrightarrow> 0 \<le> d"
  shows "\<forall>(stp, run)\<in>{(step_with (onmessage_001 dec sr) endInterview_001, run_001 dec sr),
                      (step_with (onmessage_002 dec sr) endInterview_002, run_002 dec sr)}.
           (nextStartTime s \<le> nextStartTime (stp s e) \<or>
            isInterruption e \<and> nextStartTime (stp s e) = 0) \<and>
           ((\<forall>e\<in>set es. \<not> isInterruption e) \<longrightarrow> nextStartTime s \<le> nextStartTime (run es s))"
proof -
  have nonneg: "\<And>b d. dec b = Some d \<Longrightarrow> 0 \<le> d" using assms by blast
  have e1: "\<And>t. nextStartTime (endInterview_001 t) = nextStartTime t" by simp
  have e2: "\<And>t. nextStartTime (endInterview_002 t) = nextStartTime t" by simp
  have s1: "nextStartTime s \<le> nextStartTime (step_with (onmessage_001 dec sr) endInterview_001 s e) \<or>
        isInterruption e \<and> nextStartTime (step_with (onmessage_001 dec sr) endInterview_001 s e) = 0"
    unfolding onmessage_001_def by (rule cursor_step[OF resetsOrKeeps_001 nonneg e1])
  have s2: "nextStartTime s \<le> nextStartTime (step_with (onmessage_002 dec sr) endInterview_002 s e) \<or>
        isInterruption e \<and> nextStartTime (step_with (onmessage_002 dec sr) endInterview_002 s e) = 0"
    unfolding onmessage_002_def by (rule cursor_step[OF resetsOrKeeps_002 nonneg e2])
  have r1: "nextStartTime s \<le> nextStartTime (run_001 dec sr es s)"
    if "\<forall>e\<in>set es. \<not> isInterruption e"
    unfolding run_001_def onmessage_001_def
    by (rule cursor_run[OF resetsOrKeeps_001 nonneg e1 that])
  have r2: "nextStartTime s \<le> nextStartTime (run_002 dec sr es s)"
    if "\<forall>e\<in>set es. \<not> isInterruption e"
    unfolding run_002_def onmessage_002_def
    by (rule cursor_run[OF resetsOrKeeps_002 nonneg e2 that])
  from s1 s2 r1 r2 show ?thesis by simp
qed

theorem cursor_monotone_witness:
  "\<not> isInterruption (Message (audioMessage ''AAAA'') 5 0 0)
   \<and> nextStartTime (run_002 sampleDecoder neverRaises
        [Message (audioMessage ''AAAA'') 5 0 0] initial) = 6
   \<and> isInterruption (Message interruptMessage 7 0 0)
   \<and> nextStartTime (step_with (onmessage_001 sampleDecoder neverRaises) endInterview_001
        (run_001 sampleDecoder neverRaises [Message (audioMessage ''AAAA'') 5 0 0] initial)
        (Message interruptMessage 7 0 0)) = 0"
  using cursor_monotone[OF sampleDecoder_nonneg, of neverRaises initial
          "Message (audioMessage ''AAAA'') 5 0 0" "[Message (audioMessage ''AAAA'') 5 0 0]"]
  by (simp add: run_001_eval run_002_eval handler_eval interruptMessage_def)

text \<open>
  C8. The claim: ending the session resets the cursor to 0 and empties the active set.
  \<^verbatim>\<open>endInterview\<close> sets the status to \<^verbatim>\<open>ENDED\<close> and leaves the cursor, the active
  set and \<open>isModelTalking\<close> as they were, and neither the return to the dashboard nor
  \<^verbatim>\<open>startInterview\<close> resets them afterwards. A session ended while a node is
  scheduled keeps the cursor at 6 and the node in the active set; a session whose chunk
  has played to its end keeps the cursor at 96, and the first chunk of the next session,
  handled at clock reading 1 of the new context, is started at 96.
\<close>

theorem endInterview_leaves_scheduler:
  "nextStartTime (endInterview_001 s) = nextStartTime s
   \<and> activeSources (endInterview_001 s) = activeSources s
   \<and> isModelTalking (endInterview_001 s) = isModelTalking s
   \<and> status (endInterview_001 s) = ENDED
   \<and> nextStartTime (endInterview_002 s) = nextStartTime s
   \<and> activeSources (endInterview_002 s) = activeSources s
   \<and> isModelTalking (endInterview_002 s) = isModelTalking s
   \<and> status (endInterview_002 s) = ENDED
   \<and> nextStartTime (startInterview (returnToDashboard s)) = nextStartTime s
   \<and> activeSources (startInterview (returnToDashboard s)) = activeSources s
   \<and> status (run_001 sampleDecoder neverRaises
        [Opened, Message (audioMessage ''AAAA'') 5 0 0, EndInterview] initial) = ENDED
   \<and> nextStartTime (run_001 sampleDecoder neverRaises
        [Opened, Message (audioMessage ''AAAA'') 5 0 0, EndInterview] initial) = 6
   \<and> activeSources (run_001 sampleDecoder neverRaises
        [Opened, Message (audioMessage ''AAAA'') 5 0 0, EndInterview] initial) =
        [\<lparr>sid = 0, startAt = 5, duration = 1\<rparr>]
   \<and> status (run_002 sampleDecoder neverRaises
        [Opened, Message (audioMessage ''AAAA'') 5 0 0, EndInterview] initial) = ENDED
   \<and> nextStartTime (run_002 sampleDecoder neverRaises
        [Opened, Message (audioMessage ''AAAA'') 5 0 0, EndInterview] initial) = 6
   \<and> activeSources (run_002 sampleDecoder neverRaises
        [Opened, Message (audioMessage ''AAAA'') 5 0 0, EndInterview] initial) =
        [\<lparr>sid = 0, startAt = 5, duration = 1\<rparr>]
   \<and> status (run_001 sampleDecoder neverRaises finishedSession initial) = ENDED
   \<and> nextStartTime (run_001 sampleDecoder neverRaises finishedSession initial) = 96
   \<and> activeSources (run_001 sampleDecoder neverRaises
        [Opened, Message (audioMessage ''AAAA'') 1 0 0]
        (startInterview (returnToDashboard
           (run_001 sampleDecoder neverRaises finishedSession initial)))) =
        [\<lparr>sid = 1, startAt = 96, duration = 1\<rparr>]
   \<and> status (run_002 sampleDecoder neverRaises finishedSession initial) = ENDED
   \<and> nextStartTime (run_002 sampleDecoder neverRaises finishedSession initial) = 96
   \<and> activeSources (run_002 sampleDecoder neverRaises
        [Opened, Message (audioMessage ''AAAA'') 1 0 0]
        (startInterview (returnToDashboard
           (run_002 sampleDecoder neverRaises finishedSession initial)))) =
        [\<lparr>sid = 1, startAt = 96, duration = 1\<rparr>]"
  by (simp add: run_001_eval run_002_eval handler_eval finishedSession_def startInterview_def
        returnToDashboard_def)

text \<open>
  C9. A message changes the transcript by at most one call of the aggregator: when
  the audio branch returns, by the interviewer's fragment if the message has an output
  transcription, else by the candidate's fragment if it has an input transcription,
  else not at all; and not at all when the audio branch raises. When an output
  transcription is present, the input transcription of the message has no effect on
  the result of the handler.
\<close>

theorem transcription_priority:
  "\<forall>(h, upd)\<in>{(onmessage_001 dec sr, updateTranscript_001),
                (onmessage_002 dec sr, updateTranscript_002)}.
      transcript (fst (h m ct n1 n2 s)) =
        (if audioBranchReturns dec m
         then (case outputTranscription m of
                 Some txt \<Rightarrow> upd Interviewer txt n1 n2 (transcript s)
               | None \<Rightarrow>
                   (case inputTranscription m of
                      Some txt \<Rightarrow> upd Candidate txt n1 n2 (transcript s)
                    | None \<Rightarrow> transcript s))
         else transcript s)
      \<and> (outputTranscription m \<noteq> None \<longrightarrow>
           h (m\<lparr>inputTranscription := x\<rparr>) ct n1 n2 s = h m ct n1 n2 s)"
  by (simp add: onmessage_001_def onmessage_002_def
        transcript_onmessage_with[OF resetsOrKeeps_001]
        transcript_onmessage_with[OF resetsOrKeeps_002]
        onmessage_with_input_irrelevant)

theorem transcription_priority_witness:
  "audioBranchReturns sampleDecoder bothTranscriptions
   \<and> outputTranscription bothTranscriptions \<noteq> None
   \<and> transcript (fst (onmessage_001 sampleDecoder neverRaises bothTranscriptions 5 100 100
        initial)) = [\<lparr>role = Interviewer, mtext = ''Tell me about B-Trees.'', timestamp = 100\<rparr>]
   \<and> transcript (fst (onmessage_002 sampleDecoder neverRaises bothTranscriptions 5 100 100
        initial)) = [\<lparr>role = Interviewer, mtext = ''Tell me about B-Trees.'', timestamp = 100\<rparr>]
   \<and> onmessage_002 sampleDecoder neverRaises (bothTranscriptions\<lparr>inputTranscription := None\<rparr>)
        5 100 100 initial =
      onmessage_002 sampleDecoder neverRaises bothTranscriptions 5 100 100 initial"
  using transcription_priority[of sampleDecoder neverRaises bothTranscriptions 5 100 100 initial
          None]
  by (simp add: audioBranchReturns_def base64Audio_def bothTranscriptions_def initial_def
        updateTranscript_001_unfold updateTranscript_002_unfold)

text \<open>
  C10. The transcript aggregators of the two App variants are extensionally equal: for
  every role, fragment text, pair of clock readings and prior sequence,
  \<^verbatim>\<open>updateTranscript\<close> of part_001 and of part_002 return the same sequence.
\<close>

theorem updateTranscript_variants_equal:
  "updateTranscript_001 r txt now1 now2 prev = updateTranscript_002 r txt now1 now2 prev"
  by (simp only: updateTranscript_001_unfold updateTranscript_002_unfold)

end
